theory Spec2Isabelle
  imports Complex_Main "HOL-Library.Word"
begin

section \<open>Go's float64\<close>

text \<open>
  The service computes with Go's \<^verbatim>\<open>float64\<close>, the IEEE 754 binary64 format. A value is
  its 64 bits: bit 63 is the sign, bits 62..52 the biased exponent, bits 51..0 the
  fraction. A biased exponent of 2047 is an infinity (fraction 0) or a NaN (any other
  fraction), a biased exponent of 0 a zero or a subnormal number.
\<close>

type_synonym float64 = "64 word"

named_theorems f64_eval \<open>equations that evaluate float64 operations on numerals\<close>

definition f64_sign :: "float64 \<Rightarrow> bool" where
  "f64_sign w = bit w 63"

definition f64_expo :: "float64 \<Rightarrow> nat" where
  "f64_expo w = unat (take_bit 11 (drop_bit 52 w))"

definition f64_frac :: "float64 \<Rightarrow> nat" where
  "f64_frac w = unat (take_bit 52 w)"

definition IsNaN :: "float64 \<Rightarrow> bool" where
  "IsNaN w = (f64_expo w = 2047 \<and> f64_frac w \<noteq> 0)"

definition IsInf :: "float64 \<Rightarrow> bool" where
  "IsInf w = (f64_expo w = 2047 \<and> f64_frac w = 0)"

definition IsZero :: "float64 \<Rightarrow> bool" where
  "IsZero w = (f64_expo w = 0 \<and> f64_frac w = 0)"

text \<open>A finite value is \<open>\<plusminus> f64_mant w * 2 ^ f64_exp2 w\<close>.\<close>

definition f64_mant :: "float64 \<Rightarrow> nat" where
  "f64_mant w = (if f64_expo w = 0 then f64_frac w else 2 ^ 52 + f64_frac w)"

definition f64_exp2 :: "float64 \<Rightarrow> int" where
  "f64_exp2 w = (if f64_expo w = 0 then - 1074 else int (f64_expo w) - 1075)"

definition valof :: "float64 \<Rightarrow> rat" where
  "valof w = (if f64_sign w then - 1 else 1) * of_nat (f64_mant w) * 2 powi f64_exp2 w"

definition f64_make :: "bool \<Rightarrow> nat \<Rightarrow> nat \<Rightarrow> float64" where
  "f64_make s e f = word_of_nat ((if s then 2 ^ 63 else 0) + e * 2 ^ 52 + f)"

definition f64_inf :: "bool \<Rightarrow> float64" where
  "f64_inf s = f64_make s 2047 0"

text \<open>Go does not fix the bits of a NaN an operation produces; the model takes the quiet
  NaN \<^verbatim>\<open>0x7FF8000000000000\<close>. Comparisons and formatting treat every NaN alike.\<close>

definition f64_nan :: float64 where
  "f64_nan = f64_make False 2047 (2 ^ 51)"

definition f64_zero :: "bool \<Rightarrow> float64" where
  "f64_zero s = f64_make s 0 0"

subsection \<open>Rounding to nearest, ties to even\<close>

fun bit_len :: "nat \<Rightarrow> nat" where
  "bit_len n = (if n = 0 then 0 else Suc (bit_len (n div 2)))"

declare bit_len.simps [simp del]

text \<open>\<open>round_half_even a b\<close> is the integer nearest to \<open>a / b\<close>, the even one of two
  equally near.\<close>

definition round_half_even :: "nat \<Rightarrow> nat \<Rightarrow> nat" where
  "round_half_even a b =
     (let q = a div b; r = a mod b
      in if 2 * r < b then q
         else if b < 2 * r then q + 1
         else if even q then q else q + 1)"

text \<open>\<open>floor_log2 n d\<close> is the \<open>k\<close> with \<open>2 ^ k \<le> n / d < 2 ^ (k + 1)\<close>, for positive
  \<open>n\<close> and \<open>d\<close>.\<close>

definition floor_log2 :: "nat \<Rightarrow> nat \<Rightarrow> int" where
  "floor_log2 n d =
     (let k = int (bit_len n) - int (bit_len d)
      in if (if 0 \<le> k then d * 2 ^ nat k \<le> n else d \<le> n * 2 ^ nat (- k)) then k
         else k - 1)"

text \<open>
  \<open>f64_round s n d\<close> is the float64 nearest to the rational \<open>\<plusminus> n / d\<close> (negative when
  \<open>s\<close>): a 53-bit significand at the exponent of \<open>n / d\<close>, never below the subnormal
  exponent \<open>- 1074\<close>; a significand that rounds up to \<open>2 ^ 53\<close> moves to the next exponent,
  and a result beyond the largest finite value is the infinity.
\<close>

definition f64_round :: "bool \<Rightarrow> nat \<Rightarrow> nat \<Rightarrow> float64" where
  "f64_round s n d =
     (if n = 0 then f64_zero s
      else
        let e = max (floor_log2 n d - 52) (- 1074);
            m = (if 0 \<le> e then round_half_even n (d * 2 ^ nat e)
                 else round_half_even (n * 2 ^ nat (- e)) d);
            e' = (if m = 2 ^ 53 then e + 1 else e);
            m' = (if m = 2 ^ 53 then 2 ^ 52 else m)
        in if 971 < e' then f64_inf s
           else if m' < 2 ^ 52 then f64_make s 0 m'
           else f64_make s (nat (e' + 1075)) (m' - 2 ^ 52))"

text \<open>The same for \<open>\<plusminus> (n / d) * 2 ^ k\<close>.\<close>

definition f64_round_scaled :: "bool \<Rightarrow> nat \<Rightarrow> nat \<Rightarrow> int \<Rightarrow> float64" where
  "f64_round_scaled s n d k =
     (if 0 \<le> k then f64_round s (n * 2 ^ nat k) d else f64_round s n (d * 2 ^ nat (- k)))"

text \<open>A numeric constant of the source (\<^verbatim>\<open>75\<close>, \<^verbatim>\<open>9.0\<close>, \<^verbatim>\<open>-90\<close>) is exact until Go converts it to
  float64, rounding to nearest: \<open>f64_const n d\<close> is the float64 of the constant \<open>n / d\<close>,
  for a positive \<open>d\<close>.\<close>

definition f64_const :: "int \<Rightarrow> int \<Rightarrow> float64" where
  "f64_const n d = f64_round (n < 0) (nat \<bar>n\<bar>) (nat d)"

subsection \<open>Comparison and arithmetic\<close>

text \<open>Go's \<^verbatim>\<open><\<close> on float64: false when an operand is a NaN; the two zeros are equal.\<close>

definition f64_lt :: "float64 \<Rightarrow> float64 \<Rightarrow> bool" where
  "f64_lt a b =
     (if IsNaN a \<or> IsNaN b then False
      else if IsInf a then f64_sign a \<and> \<not> (IsInf b \<and> f64_sign b)
      else if IsInf b then \<not> f64_sign b
      else valof a < valof b)"

definition f64_gt :: "float64 \<Rightarrow> float64 \<Rightarrow> bool" where
  "f64_gt a b = f64_lt b a"

definition f64_le :: "float64 \<Rightarrow> float64 \<Rightarrow> bool" where
  "f64_le a b = (\<not> IsNaN a \<and> \<not> IsNaN b \<and> \<not> f64_lt b a)"

definition f64_mul :: "float64 \<Rightarrow> float64 \<Rightarrow> float64" where
  "f64_mul a b =
     (let s = (f64_sign a \<noteq> f64_sign b)
      in if IsNaN a \<or> IsNaN b then f64_nan
         else if IsInf a \<or> IsInf b then (if IsZero a \<or> IsZero b then f64_nan else f64_inf s)
         else f64_round_scaled s (f64_mant a * f64_mant b) 1 (f64_exp2 a + f64_exp2 b))"

definition f64_div :: "float64 \<Rightarrow> float64 \<Rightarrow> float64" where
  "f64_div a b =
     (let s = (f64_sign a \<noteq> f64_sign b)
      in if IsNaN a \<or> IsNaN b then f64_nan
         else if IsInf a then (if IsInf b then f64_nan else f64_inf s)
         else if IsInf b then f64_zero s
         else if IsZero b then (if IsZero a then f64_nan else f64_inf s)
         else f64_round_scaled s (f64_mant a) (f64_mant b) (f64_exp2 a - f64_exp2 b))"

text \<open>An exact sum of zero is \<open>+0\<close>, except that \<open>(-0) + (-0)\<close> is \<open>-0\<close>.\<close>

definition f64_add :: "float64 \<Rightarrow> float64 \<Rightarrow> float64" where
  "f64_add a b =
     (if IsNaN a \<or> IsNaN b then f64_nan
      else if IsInf a then (if IsInf b \<and> f64_sign a \<noteq> f64_sign b then f64_nan else a)
      else if IsInf b then b
      else
        let e = min (f64_exp2 a) (f64_exp2 b);
            x = (if f64_sign a then - 1 else 1) * int (f64_mant a) * 2 ^ nat (f64_exp2 a - e);
            y = (if f64_sign b then - 1 else 1) * int (f64_mant b) * 2 ^ nat (f64_exp2 b - e);
            t = x + y
        in if t = 0 then f64_zero (f64_sign a \<and> f64_sign b)
           else f64_round_scaled (t < 0) (nat \<bar>t\<bar>) 1 e)"

subsection \<open>Formatting\<close>

text \<open>The decimal digits of a natural number, as \<^verbatim>\<open>%d\<close> writes them.\<close>

definition digit_char :: "nat \<Rightarrow> char" where
  "digit_char d = ''0123456789'' ! d"

fun dec_digits :: "nat \<Rightarrow> string" where
  "dec_digits n =
     (if n < 10 then [digit_char n] else dec_digits (n div 10) @ [digit_char (n mod 10)])"

declare dec_digits.simps [simp del]

definition Itoa :: "int \<Rightarrow> string" where
  "Itoa i = (if i < 0 then ''-'' else []) @ dec_digits (nat \<bar>i\<bar>)"

text \<open>
  \<^verbatim>\<open>strconv.FormatFloat(f, 'f', prec, 64)\<close>: \<^verbatim>\<open>NaN\<close>, \<^verbatim>\<open>+Inf\<close> or \<^verbatim>\<open>-Inf\<close> for the special
  values; otherwise a minus sign when the sign bit is set, then the exact decimal
  expansion of the magnitude rounded to \<open>prec\<close> digits after the point (to nearest, ties
  to even): the integer part, and after a point the \<open>prec\<close> fraction digits when
  \<open>prec > 0\<close>. \<^verbatim>\<open>fmt.Sprintf("%.4f", f)\<close> writes the same text with \<open>prec = 4\<close>.
\<close>

text \<open>\<open>f64_scaled f prec\<close> is the magnitude of the finite \<open>f\<close> times \<open>10 ^ prec\<close>, rounded to
  an integer.\<close>

definition f64_scaled :: "float64 \<Rightarrow> nat \<Rightarrow> nat" where
  "f64_scaled f prec =
     (if 0 \<le> f64_exp2 f then f64_mant f * 10 ^ prec * 2 ^ nat (f64_exp2 f)
      else round_half_even (f64_mant f * 10 ^ prec) (2 ^ nat (- f64_exp2 f)))"

definition zero_pad :: "nat \<Rightarrow> string \<Rightarrow> string" where
  "zero_pad k ds = replicate (k - length ds) (CHR ''0'') @ ds"

text \<open>\<open>fixed_point n prec\<close> writes \<open>n / 10 ^ prec\<close> with \<open>prec\<close> digits after the point.\<close>

definition fixed_point :: "nat \<Rightarrow> nat \<Rightarrow> string" where
  "fixed_point n prec =
     dec_digits (n div 10 ^ prec) @
     (if prec = 0 then [] else ''.'' @ zero_pad prec (dec_digits (n mod 10 ^ prec)))"

definition FormatFloat :: "float64 \<Rightarrow> nat \<Rightarrow> string" where
  "FormatFloat f prec =
     (if IsNaN f then ''NaN''
      else if IsInf f then (if f64_sign f then ''-Inf'' else ''+Inf'')
      else (if f64_sign f then ''-'' else []) @ fixed_point (f64_scaled f prec) prec)"

section \<open>Errors, the logger and the HTTP client\<close>

text \<open>
  A Go error is its message; \<^verbatim>\<open>fmt.Errorf("...: %w", err)\<close> wraps \<open>err\<close> behind a prefix.
  \<open>Error\<close> is the method \<^verbatim>\<open>Error()\<close>.
\<close>

datatype error = New string | Wrap string error

fun Error :: "error \<Rightarrow> string" where
  "Error (New msg) = msg"
| "Error (Wrap prefix err) = prefix @ Error err"

datatype LogLevel = LevelDebug | LevelInfo | LevelWarn | LevelError

text \<open>An outgoing request of \<^verbatim>\<open>MakeRequest\<close> (always a GET) and the response to it.\<close>

record client_request =
  req_url :: string
  req_header :: "(string \<times> string) list"

record http_response =
  StatusCode :: int
  Status :: string
  Body :: string

text \<open>The decoded JSON documents of weather.go; the nested anonymous structs are
  flattened. A \<^verbatim>\<open>*float64\<close> is an option: \<^verbatim>\<open>nil\<close> is \<open>None\<close>.\<close>

record pointsResponse =
  GridId :: string
  GridX :: int
  GridY :: int
  ObservationStations :: string

record stationFeature =
  StationIdentifier :: string

record stationsResponse =
  Features :: "stationFeature list"

record observationResponse =
  Temperature_Value :: "float64 option"
  Temperature_UnitCode :: string
  TextDescription :: string

text \<open>
  What the program does not contain is a parameter: the Go standard library and the
  network. \<open>NewRequest\<close> is the error of \<^verbatim>\<open>http.NewRequest\<close> for a method and a URL, if any;
  \<open>Do\<close> is \<^verbatim>\<open>client.Do\<close>, which may answer by the requests sent before; the three
  decoders are \<^verbatim>\<open>json.NewDecoder(body).Decode\<close> at the three struct types; \<open>ParseFloat\<close> is
  \<^verbatim>\<open>strconv.ParseFloat(s, 64)\<close>.
\<close>

record env =
  NewRequest :: "string \<Rightarrow> string \<Rightarrow> error option"
  Do :: "client_request list \<Rightarrow> client_request \<Rightarrow> error + http_response"
  decode_points :: "string \<Rightarrow> error + pointsResponse"
  decode_stations :: "string \<Rightarrow> error + stationsResponse"
  decode_observation :: "string \<Rightarrow> error + observationResponse"
  ParseFloat :: "string \<Rightarrow> error + float64"

text \<open>The effects of a run: the requests sent upstream and the log lines written (level
  and message; the fields of a line are left out), oldest first.\<close>

record effects =
  sent :: "client_request list"
  logged :: "(LogLevel \<times> string) list"

definition no_effects :: effects where
  "no_effects = \<lparr>sent = [], logged = []\<rparr>"

definition logger_log :: "LogLevel \<Rightarrow> string \<Rightarrow> effects \<Rightarrow> effects" where
  "logger_log level message s = s\<lparr>logged := logged s @ [(level, message)]\<rparr>"

text \<open>
  \<^verbatim>\<open>
  func MakeRequest(url, userAgent string) (io.ReadCloser, error) {
      client := &http.Client{}
      req, err := http.NewRequest("GET", url, nil)
      if err != nil {
          return nil, fmt.Errorf("failed to create request: %w", err)
      }
      req.Header.Set("User-Agent", userAgent)
      req.Header.Set("Accept", "application/json")
      resp, err := client.Do(req)
      if err != nil {
          return nil, fmt.Errorf("failed to make request: %w", err)
      }
      if resp.StatusCode != http.StatusOK {
          resp.Body.Close()
          return nil, fmt.Errorf("API returned status: %d %s", resp.StatusCode, resp.Status)
      }
      return resp.Body, nil
  }
  \<close>
\<close>

definition get_request :: "string \<Rightarrow> string \<Rightarrow> client_request" where
  "get_request url userAgent =
     \<lparr>req_url = url,
      req_header = [(''User-Agent'', userAgent), (''Accept'', ''application/json'')]\<rparr>"

definition MakeRequest :: "env \<Rightarrow> string \<Rightarrow> string \<Rightarrow> effects \<Rightarrow> (error + string) \<times> effects" where
  "MakeRequest E url userAgent s =
     (case NewRequest E ''GET'' url of
        Some err \<Rightarrow> (Inl (Wrap ''failed to create request: '' err), s)
      | None \<Rightarrow>
          (case Do E (sent s) (get_request url userAgent) of
             Inl err \<Rightarrow>
               (Inl (Wrap ''failed to make request: '' err),
                s\<lparr>sent := sent s @ [get_request url userAgent]\<rparr>)
           | Inr resp \<Rightarrow>
               if StatusCode resp \<noteq> 200
               then (Inl (New (''API returned status: '' @ Itoa (StatusCode resp) @ '' '' @
                               Status resp)),
                     s\<lparr>sent := sent s @ [get_request url userAgent]\<rparr>)
               else (Inr (Body resp), s\<lparr>sent := sent s @ [get_request url userAgent]\<rparr>)))"

section \<open>The weather orchestrator (weather.go)\<close>

text \<open>
  \<^verbatim>\<open>
  func determineStatus(tempF float64) string {
      if tempF > 75 {
          return "hot"
      } else if tempF < 50 {
          return "cold"
      }
      return "moderate"
  }
  \<close>
\<close>

definition determineStatus :: "float64 \<Rightarrow> string" where
  "determineStatus tempF =
     (if f64_gt tempF (f64_const 75 1) then ''hot''
      else if f64_lt tempF (f64_const 50 1) then ''cold''
      else ''moderate'')"

definition userAgent :: string where
  "userAgent = ''example-project-weather-service/1.0 (contact: support@example.com)''"

definition noaaBaseURL :: string where
  "noaaBaseURL = ''https://api.weather.gov''"

text \<open>
  \<^verbatim>\<open>getGridpoint\<close>: the URL is \<^verbatim>\<open>fmt.Sprintf("%s/points/%.4f,%.4f", noaaBaseURL, latitude,
  longitude)\<close>, here \<open>pointsURL\<close>; a failed request and a failed decoding are logged and wrapped; otherwise
  the grid id and the stations URL of the decoded document are returned.
\<close>

definition pointsURL :: "float64 \<Rightarrow> float64 \<Rightarrow> string" where
  "pointsURL latitude longitude =
     noaaBaseURL @ ''/points/'' @ FormatFloat latitude 4 @ '','' @ FormatFloat longitude 4"

definition getGridpoint ::
  "env \<Rightarrow> float64 \<Rightarrow> float64 \<Rightarrow> effects \<Rightarrow> (error + string \<times> string) \<times> effects" where
  "getGridpoint E latitude longitude s =
     (case MakeRequest E (pointsURL latitude longitude) userAgent
             (logger_log LevelDebug ''Fetching gridpoint from NOAA'' s) of
        (Inl err, s1) \<Rightarrow>
          (Inl (Wrap ''failed to get gridpoint from NOAA points API: '' err),
           logger_log LevelError ''Failed to get gridpoint from NOAA points API'' s1)
      | (Inr body, s1) \<Rightarrow>
          (case decode_points E body of
             Inl err \<Rightarrow>
               (Inl (Wrap ''failed to decode NOAA points API response: '' err),
                logger_log LevelError ''Failed to decode NOAA points API response'' s1)
           | Inr pointsResp \<Rightarrow>
               (Inr (GridId pointsResp, ObservationStations pointsResp),
                logger_log LevelDebug ''Successfully retrieved gridpoint'' s1)))"

text \<open>The text after the number in the returned temperature: in the source file the
  string literal holds the five bytes \<^verbatim>\<open>C3 82 C2 B0 46\<close>, the UTF-8 encoding of U+00C2,
  U+00B0 and the letter F.\<close>

definition temp_suffix :: string where
  "temp_suffix = [CHR 0xC3, CHR 0x82, CHR 0xC2, CHR 0xB0, CHR ''F'']"

text \<open>\<^verbatim>\<open>tempF := (tempC * 9.0 / 5.0) + 32.0\<close>, three float64 operations, each rounded.\<close>

definition toFahrenheit :: "float64 \<Rightarrow> float64" where
  "toFahrenheit tempC =
     f64_add (f64_div (f64_mul tempC (f64_const 9 1)) (f64_const 5 1)) (f64_const 32 1)"

text \<open>
  \<^verbatim>\<open>GetWeatherFromNOAA\<close>, from the check of the temperature on:
  \<^verbatim>\<open>
      if observationResp.Properties.Temperature.Value == nil {
          logger.WarnWithFields("Temperature data not available from NOAA observations", ...)
          return "", "", fmt.Errorf("temperature data not available from NOAA observations")
      }
      tempC := *observationResp.Properties.Temperature.Value
      tempF := (tempC * 9.0 / 5.0) + 32.0
      status := determineStatus(tempF)
      logger.InfoWithFields("Successfully retrieved current weather data", ...)
      return status, strconv.FormatFloat(tempF, 'f', 1, 64) + "..F", nil
  \<close>
\<close>

definition fromObservation ::
  "observationResponse \<Rightarrow> effects \<Rightarrow> (error + string \<times> string) \<times> effects" where
  "fromObservation observationResp s =
     (case Temperature_Value observationResp of
        None \<Rightarrow>
          (Inl (New ''temperature data not available from NOAA observations''),
           logger_log LevelWarn ''Temperature data not available from NOAA observations'' s)
      | Some tempC \<Rightarrow>
          (Inr (determineStatus (toFahrenheit tempC),
                FormatFloat (toFahrenheit tempC) 1 @ temp_suffix),
           logger_log LevelInfo ''Successfully retrieved current weather data'' s))"

text \<open>Step 3 of \<^verbatim>\<open>GetWeatherFromNOAA\<close>: the latest observation of the station, from the
  URL \<^verbatim>\<open>fmt.Sprintf("%s/stations/%s/observations/latest", noaaBaseURL, stationId)\<close>.\<close>

definition observationURL :: "string \<Rightarrow> string" where
  "observationURL stationId = noaaBaseURL @ ''/stations/'' @ stationId @ ''/observations/latest''"

definition fromStation ::
  "env \<Rightarrow> string \<Rightarrow> effects \<Rightarrow> (error + string \<times> string) \<times> effects" where
  "fromStation E stationId s =
     (case MakeRequest E (observationURL stationId) userAgent
             (logger_log LevelDebug ''Fetching current observations from NOAA station'' s) of
        (Inl err, s1) \<Rightarrow>
          (Inl (Wrap ''failed to get current observations from NOAA: '' err),
           logger_log LevelError ''Failed to get current observations from NOAA'' s1)
      | (Inr obsBody, s1) \<Rightarrow>
          (case decode_observation E obsBody of
             Inl err \<Rightarrow>
               (Inl (Wrap ''failed to decode NOAA observations response: '' err),
                logger_log LevelError ''Failed to decode NOAA observations response'' s1)
           | Inr observationResp \<Rightarrow> fromObservation observationResp s1))"

text \<open>Step 2 of \<^verbatim>\<open>GetWeatherFromNOAA\<close>: the list of stations; the first one is used.
  \<^verbatim>\<open>
      if len(stationsResp.Features) == 0 {
          logger.WarnWithFields("No observation stations available", ...)
          return "", "", fmt.Errorf("no observation stations available")
      }
      stationId := stationsResp.Features[0].Properties.StationIdentifier
  \<close>
\<close>

definition fromStationsURL ::
  "env \<Rightarrow> string \<Rightarrow> effects \<Rightarrow> (error + string \<times> string) \<times> effects" where
  "fromStationsURL E observationStationsURL s =
     (case MakeRequest E observationStationsURL userAgent s of
        (Inl err, s1) \<Rightarrow>
          (Inl (Wrap ''failed to get observation stations: '' err),
           logger_log LevelError ''Failed to get observation stations'' s1)
      | (Inr stationsBody, s1) \<Rightarrow>
          (case decode_stations E stationsBody of
             Inl err \<Rightarrow>
               (Inl (Wrap ''failed to decode stations response: '' err),
                logger_log LevelError ''Failed to decode stations response'' s1)
           | Inr stationsResp \<Rightarrow>
               (case Features stationsResp of
                  [] \<Rightarrow>
                    (Inl (New ''no observation stations available''),
                     logger_log LevelWarn ''No observation stations available'' s1)
                | feature # _ \<Rightarrow> fromStation E (StationIdentifier feature) s1)))"

text \<open>\<^verbatim>\<open>GetWeatherFromNOAA(latitude, longitude)\<close>: the three steps in sequence, each gated
  on the one before. The result is the error, or the status and the temperature text.\<close>

definition GetWeatherFromNOAA ::
  "env \<Rightarrow> float64 \<Rightarrow> float64 \<Rightarrow> effects \<Rightarrow> (error + string \<times> string) \<times> effects" where
  "GetWeatherFromNOAA E latitude longitude s =
     (case getGridpoint E latitude longitude (logger_log LevelInfo ''Fetching weather from NOAA'' s) of
        (Inl err, s1) \<Rightarrow> (Inl err, s1)
      | (Inr (gridId, observationStationsURL), s1) \<Rightarrow>
          fromStationsURL E observationStationsURL s1)"

section \<open>The request handler\<close>

text \<open>An incoming request: its method and its query, \<^verbatim>\<open>r.URL.Query()\<close>, a map from a key
  to its values. \<^verbatim>\<open>Get\<close> is the first value of a key, or the empty string.\<close>

record request =
  Method :: string
  Query :: "string \<Rightarrow> string list"

definition Get :: "(string \<Rightarrow> string list) \<Rightarrow> string \<Rightarrow> string" where
  "Get values key = (case values key of [] \<Rightarrow> [] | v # _ \<Rightarrow> v)"

record WeatherResponse =
  Status_field :: string
  Temp_field :: string

text \<open>What the handler writes: \<^verbatim>\<open>http.Error(w, message, code)\<close>, or the headers it sets
  and the value it passes to \<^verbatim>\<open>json.NewEncoder(w).Encode\<close>.\<close>

datatype reply =
    HttpError string int
  | Encoded "(string \<times> string) list" WeatherResponse

definition StatusMethodNotAllowed :: int where
  "StatusMethodNotAllowed = 405"

definition StatusBadRequest :: int where
  "StatusBadRequest = 400"

definition StatusInternalServerError :: int where
  "StatusInternalServerError = 500"

text \<open>The handler from the range checks on, with both parameters parsed.
  \<^verbatim>\<open>
      if latitude < -90 || latitude > 90 {
          logger.WarnWithFields("Latitude out of range", ...)
          http.Error(w, "latitude must be between -90 and 90", http.StatusBadRequest)
          return
      }
      if longitude < -180 || longitude > 180 {
          logger.WarnWithFields("Longitude out of range", ...)
          http.Error(w, "longitude must be between -180 and 180", http.StatusBadRequest)
          return
      }
      status, temp, err := weather.GetWeatherFromNOAA(latitude, longitude)
      if err != nil {
          logger.ErrorWithFields("Error fetching weather", ...)
          http.Error(w, "Failed to fetch weather data", http.StatusInternalServerError)
          return
      }
      response := WeatherResponse{Status: status, Temp: temp}
      logger.InfoWithFields("Weather request successful", ...)
      w.Header().Set("Content-Type", "application/json")
      w.Header().Set("Cache-Control", "public, max-age=10")
      json.NewEncoder(w).Encode(response)
  \<close>
\<close>

definition fetchAndRespond :: "env \<Rightarrow> float64 \<Rightarrow> float64 \<Rightarrow> effects \<Rightarrow> reply \<times> effects" where
  "fetchAndRespond E latitude longitude s =
     (case GetWeatherFromNOAA E latitude longitude s of
        (Inl err, s1) \<Rightarrow>
          (HttpError ''Failed to fetch weather data'' StatusInternalServerError,
           logger_log LevelError ''Error fetching weather'' s1)
      | (Inr (status, temp), s1) \<Rightarrow>
          (Encoded [(''Content-Type'', ''application/json''),
                    (''Cache-Control'', ''public, max-age=10'')]
             \<lparr>Status_field = status, Temp_field = temp\<rparr>,
           logger_log LevelInfo ''Weather request successful'' s1))"

definition handleCoordinates :: "env \<Rightarrow> float64 \<Rightarrow> float64 \<Rightarrow> effects \<Rightarrow> reply \<times> effects" where
  "handleCoordinates E latitude longitude s =
     (if f64_lt latitude (f64_const (- 90) 1) \<or> f64_gt latitude (f64_const 90 1)
      then (HttpError ''latitude must be between -90 and 90'' StatusBadRequest,
            logger_log LevelWarn ''Latitude out of range'' s)
      else if f64_lt longitude (f64_const (- 180) 1) \<or> f64_gt longitude (f64_const 180 1)
      then (HttpError ''longitude must be between -180 and 180'' StatusBadRequest,
            logger_log LevelWarn ''Longitude out of range'' s)
      else fetchAndRespond E latitude longitude s)"

text \<open>\<^verbatim>\<open>WeatherHandler(w, r)\<close> up to the range checks: the method, the two query
  parameters, and their parsing, the latitude first.\<close>

definition WeatherHandler :: "env \<Rightarrow> request \<Rightarrow> effects \<Rightarrow> reply \<times> effects" where
  "WeatherHandler E r s0 =
     (let s = logger_log LevelInfo ''Incoming weather request'' s0;
          latStr = Get (Query r) ''latitude'';
          lonStr = Get (Query r) ''longitude''
      in if Method r \<noteq> ''GET''
         then (HttpError ''Method not allowed'' StatusMethodNotAllowed,
               logger_log LevelWarn ''Method not allowed'' s)
         else if latStr = [] \<or> lonStr = []
         then (HttpError ''latitude and longitude query parameters are required'' StatusBadRequest,
               logger_log LevelWarn ''Missing required query parameters'' s)
         else
           (case ParseFloat E latStr of
              Inl err \<Rightarrow>
                (HttpError ''invalid latitude parameter'' StatusBadRequest,
                 logger_log LevelWarn ''Invalid latitude parameter'' s)
            | Inr latitude \<Rightarrow>
                (case ParseFloat E lonStr of
                   Inl err \<Rightarrow>
                     (HttpError ''invalid longitude parameter'' StatusBadRequest,
                      logger_log LevelWarn ''Invalid longitude parameter'' s)
                 | Inr longitude \<Rightarrow> handleCoordinates E latitude longitude s)))"

section \<open>A mocked upstream\<close>

text \<open>
  A small upstream for concrete runs. It answers the points URL of the coordinate
  (38.9728, -94.712), the stations URL that the points document names, and the
  observation URL of station KIXD; any other URL is a 404. The points document has the
  grid id EAX; the stations document lists the given station identifiers; the
  observation document carries the given temperature, \<open>None\<close> for a JSON null. The parser
  knows a handful of strings and rejects the rest.
\<close>

definition mock_stations_url :: string where
  "mock_stations_url = ''https://api.weather.gov/gridpoints/EAX/38,73/stations''"

definition ok_response :: "string \<Rightarrow> http_response" where
  "ok_response body = \<lparr>StatusCode = 200, Status = ''200 OK'', Body = body\<rparr>"

definition mock_Do :: "client_request list \<Rightarrow> client_request \<Rightarrow> error + http_response" where
  "mock_Do history req =
     (if req_url req = ''https://api.weather.gov/points/38.9728,-94.7120''
      then Inr (ok_response ''points'')
      else if req_url req = mock_stations_url then Inr (ok_response ''stations'')
      else if req_url req = ''https://api.weather.gov/stations/KIXD/observations/latest''
      then Inr (ok_response ''observation'')
      else Inr \<lparr>StatusCode = 404, Status = ''404 Not Found'', Body = []\<rparr>)"

definition mock_ParseFloat :: "string \<Rightarrow> error + float64" where
  "mock_ParseFloat str =
     (case map_of
        [(''38.9728'', f64_const 389728 10000), (''-94.712'', f64_const (- 94712) 1000),
         (''91'', f64_const 91 1), (''-91'', f64_const (- 91) 1),
         (''181'', f64_const 181 1), (''-200'', f64_const (- 200) 1),
         (''NaN'', f64_nan)] str of
        Some f \<Rightarrow> Inr f
      | None \<Rightarrow> Inl (New ''invalid syntax''))"

definition mock_env :: "string list \<Rightarrow> float64 option \<Rightarrow> env" where
  "mock_env stations temperature =
     \<lparr>NewRequest = (\<lambda>method url. None),
      Do = mock_Do,
      decode_points = (\<lambda>body.
        if body = ''points''
        then Inr \<lparr>GridId = ''EAX'', GridX = 38, GridY = 73,
                  ObservationStations = mock_stations_url\<rparr>
        else Inl (New ''unexpected end of JSON input'')),
      decode_stations = (\<lambda>body.
        if body = ''stations''
        then Inr \<lparr>Features = map (\<lambda>ident. \<lparr>StationIdentifier = ident\<rparr>) stations\<rparr>
        else Inl (New ''unexpected end of JSON input'')),
      decode_observation = (\<lambda>body.
        if body = ''observation''
        then Inr \<lparr>Temperature_Value = temperature, Temperature_UnitCode = ''wmoUnit:degC'',
                  TextDescription = ''Clear''\<rparr>
        else Inl (New ''unexpected end of JSON input'')),
      ParseFloat = mock_ParseFloat\<rparr>"

definition mock_request :: "string \<Rightarrow> (string \<times> string) list \<Rightarrow> request" where
  "mock_request method params =
     \<lparr>Method = method,
      Query = (\<lambda>key. map snd (filter (\<lambda>p. fst p = key) params))\<rparr>"

lemmas [f64_eval] =
  f64_sign_def f64_expo_def f64_frac_def IsNaN_def IsInf_def IsZero_def f64_mant_def
  f64_exp2_def valof_def f64_make_def f64_inf_def f64_nan_def f64_zero_def bit_len.simps
  round_half_even_def floor_log2_def f64_round_def f64_round_scaled_def f64_const_def
  f64_lt_def f64_gt_def f64_le_def f64_mul_def f64_div_def f64_add_def Let_def
  digit_char_def dec_digits.simps Itoa_def f64_scaled_def zero_pad_def fixed_point_def
  FormatFloat_def

section \<open>Facts about the model\<close>

subsection \<open>The classification thresholds\<close>

lemma f64_const_75: "f64_const 75 1 = 0x4052C00000000000"
  by (simp add: f64_eval)

lemma f64_const_50: "f64_const 50 1 = 0x4049000000000000"
  by (simp add: f64_eval)

lemma f64_75_facts:
  "\<not> IsNaN 0x4052C00000000000" "\<not> IsInf 0x4052C00000000000" "valof 0x4052C00000000000 = 75"
  by (simp_all add: f64_eval)

lemma f64_50_facts:
  "\<not> IsNaN 0x4049000000000000" "\<not> IsInf 0x4049000000000000" "valof 0x4049000000000000 = 50"
  by (simp_all add: f64_eval)

lemma lt_50_not_gt_75: "f64_lt x (f64_const 50 1) \<Longrightarrow> \<not> f64_gt x (f64_const 75 1)"
  unfolding f64_lt_def f64_gt_def f64_const_75 f64_const_50
  by (auto simp: f64_75_facts f64_50_facts split: if_splits)

subsection \<open>Requests sent upstream\<close>

lemma sent_logger_log [simp]: "sent (logger_log level message s) = sent s"
  by (simp add: logger_log_def)

lemma MakeRequest_Inr:
  "MakeRequest E url agent s = (Inr body, s') \<Longrightarrow> s' = s\<lparr>sent := sent s @ [get_request url agent]\<rparr>"
  by (auto simp: MakeRequest_def split: option.splits sum.splits if_splits)

lemma MakeRequest_extends: "\<exists>rest. sent (snd (MakeRequest E url agent s)) = sent s @ rest"
  by (auto simp: MakeRequest_def split: option.splits sum.splits)

lemma MakeRequest_accepted:
  "NewRequest E ''GET'' url = None \<Longrightarrow>
   sent (snd (MakeRequest E url agent s)) = sent s @ [get_request url agent]"
  by (auto simp: MakeRequest_def split: option.splits sum.splits)

lemma getGridpoint_Inr:
  "getGridpoint E latitude longitude s = (Inr (gridId, stationsURL), s1) \<Longrightarrow>
   sent s1 = sent s @ [get_request (pointsURL latitude longitude) userAgent]"
  by (auto simp: getGridpoint_def split: prod.splits sum.splits dest!: MakeRequest_Inr)

lemma getGridpoint_accepted:
  "NewRequest E ''GET'' (pointsURL latitude longitude) = None \<Longrightarrow>
   sent (snd (getGridpoint E latitude longitude s)) =
     sent s @ [get_request (pointsURL latitude longitude) userAgent]"
  using MakeRequest_accepted [of E "pointsURL latitude longitude" userAgent
      "logger_log LevelDebug ''Fetching gridpoint from NOAA'' s"]
  by (auto simp: getGridpoint_def split: prod.splits sum.splits)

lemma fromObservation_sent: "sent (snd (fromObservation observationResp s)) = sent s"
  by (simp add: fromObservation_def split: option.splits)

lemma fromStation_extends: "\<exists>rest. sent (snd (fromStation E stationId s)) = sent s @ rest"
  using MakeRequest_extends [of E "observationURL stationId" userAgent
      "logger_log LevelDebug ''Fetching current observations from NOAA station'' s"]
  by (auto simp: fromStation_def fromObservation_sent split: prod.splits sum.splits)

lemma fromStationsURL_extends: "\<exists>rest. sent (snd (fromStationsURL E url s)) = sent s @ rest"
proof (cases "MakeRequest E url userAgent s")
  case (Pair res s1)
  from MakeRequest_extends [of E url userAgent s] Pair
  obtain r1 where r1: "sent s1 = sent s @ r1" by auto
  show ?thesis
  proof (cases res)
    case (Inl err)
    with Pair r1 show ?thesis by (simp add: fromStationsURL_def)
  next
    case (Inr body)
    show ?thesis
    proof (cases "decode_stations E body")
      case (Inl err)
      with Pair Inr r1 show ?thesis by (simp add: fromStationsURL_def)
    next
      case decoded: (Inr stationsResp)
      show ?thesis
      proof (cases "Features stationsResp")
        case Nil
        with Pair Inr decoded r1 show ?thesis by (simp add: fromStationsURL_def)
      next
        case (Cons feature others)
        from fromStation_extends [of E "StationIdentifier feature" s1]
        obtain r2 where "sent (snd (fromStation E (StationIdentifier feature) s1)) = sent s1 @ r2"
          by auto
        with Pair Inr decoded Cons r1 show ?thesis by (simp add: fromStationsURL_def)
      qed
    qed
  qed
qed

lemma GetWeatherFromNOAA_first_request:
  assumes "NewRequest E ''GET'' (pointsURL latitude longitude) = None"
  shows "\<exists>rest. sent (snd (GetWeatherFromNOAA E latitude longitude s)) =
           sent s @ get_request (pointsURL latitude longitude) userAgent # rest"
proof (cases "getGridpoint E latitude longitude (logger_log LevelInfo ''Fetching weather from NOAA'' s)")
  case (Pair res s1)
  from getGridpoint_accepted [OF assms, of "logger_log LevelInfo ''Fetching weather from NOAA'' s"] Pair
  have s1: "sent s1 = sent s @ [get_request (pointsURL latitude longitude) userAgent]"
    by simp
  show ?thesis
  proof (cases res)
    case (Inl err)
    with Pair s1 show ?thesis by (simp add: GetWeatherFromNOAA_def)
  next
    case (Inr grid)
    obtain gridId stationsURL where grid: "grid = (gridId, stationsURL)" by (cases grid)
    from fromStationsURL_extends [of E stationsURL s1]
    obtain r where "sent (snd (fromStationsURL E stationsURL s1)) = sent s1 @ r" by auto
    with Pair Inr grid s1 show ?thesis by (simp add: GetWeatherFromNOAA_def)
  qed
qed

lemma fetchAndRespond_sent:
  "sent (snd (fetchAndRespond E latitude longitude s)) =
   sent (snd (GetWeatherFromNOAA E latitude longitude s))"
  by (simp add: fetchAndRespond_def split: prod.splits sum.splits)

subsection \<open>Comparisons with a NaN\<close>

lemma f64_lt_NaN: "IsNaN a \<or> IsNaN b \<Longrightarrow> \<not> f64_lt a b"
  by (auto simp: f64_lt_def)

lemma f64_gt_NaN: "IsNaN a \<or> IsNaN b \<Longrightarrow> \<not> f64_gt a b"
  by (auto simp: f64_gt_def f64_lt_def)

lemma FormatFloat_NaN: "IsNaN f \<Longrightarrow> FormatFloat f prec = ''NaN''"
  by (simp add: FormatFloat_def)

subsection \<open>The temperature text\<close>

lemma dec_digits_digit: "n < 10 \<Longrightarrow> dec_digits n = [digit_char n]"
  by (simp add: dec_digits.simps)

text \<open>A finite value is written with exactly one digit after the point.\<close>

lemma FormatFloat_one_decimal:
  assumes "\<not> IsNaN f" and "\<not> IsInf f"
  shows "FormatFloat f 1 =
           (if f64_sign f then ''-'' else []) @ dec_digits (f64_scaled f 1 div 10) @
           [CHR ''.'', digit_char (f64_scaled f 1 mod 10)]"
  using assms by (simp add: FormatFloat_def fixed_point_def zero_pad_def dec_digits_digit)

lemma FormatFloat_Inf:
  "IsInf f \<Longrightarrow> FormatFloat f prec = (if f64_sign f then ''-Inf'' else ''+Inf'')"
  by (auto simp: FormatFloat_def IsInf_def IsNaN_def)

text \<open>An observation of \<open>10 ^ 308\<close> degrees Celsius is a finite float64 whose Fahrenheit value
  overflows.\<close>

lemma toFahrenheit_overflow: "toFahrenheit (f64_const (10 ^ 308) 1) = f64_inf False"
  by (simp add: toFahrenheit_def f64_eval)

subsection \<open>The status on success\<close>

lemma determineStatus_range:
  "determineStatus tempF = ''hot'' \<or> determineStatus tempF = ''cold'' \<or>
   determineStatus tempF = ''moderate''"
  by (simp add: determineStatus_def)

lemma fromObservation_status:
  "fromObservation observationResp s = (Inr (status, temp), s') \<Longrightarrow>
   status = ''hot'' \<or> status = ''cold'' \<or> status = ''moderate''"
  using determineStatus_range
  by (auto simp: fromObservation_def split: option.splits)

lemma fromStation_status:
  "fromStation E stationId s = (Inr (status, temp), s') \<Longrightarrow>
   status = ''hot'' \<or> status = ''cold'' \<or> status = ''moderate''"
  by (auto simp: fromStation_def split: prod.splits sum.splits dest: fromObservation_status)

lemma fromStationsURL_status:
  "fromStationsURL E url s = (Inr (status, temp), s') \<Longrightarrow>
   status = ''hot'' \<or> status = ''cold'' \<or> status = ''moderate''"
  by (auto simp: fromStationsURL_def split: prod.splits sum.splits list.splits
      dest: fromStation_status)

subsection \<open>Runs against the mocked upstream\<close>

lemma mock_pointsURL:
  "pointsURL (f64_const 389728 10000) (f64_const (- 94712) 1000) =
     ''https://api.weather.gov/points/38.9728,-94.7120''"
  by (simp add: pointsURL_def noaaBaseURL_def f64_eval)

lemma mock_getGridpoint:
  "getGridpoint (mock_env stations temperature) (f64_const 389728 10000)
     (f64_const (- 94712) 1000) s =
   (Inr (''EAX'', mock_stations_url),
    logger_log LevelDebug ''Successfully retrieved gridpoint''
      ((logger_log LevelDebug ''Fetching gridpoint from NOAA'' s)
         \<lparr>sent := sent s @ [get_request ''https://api.weather.gov/points/38.9728,-94.7120''
                               userAgent]\<rparr>))"
  by (simp add: getGridpoint_def MakeRequest_def mock_pointsURL mock_env_def mock_Do_def
      get_request_def ok_response_def)

lemma mock_stations_request:
  "MakeRequest (mock_env stations temperature) mock_stations_url userAgent s =
   (Inr ''stations'', s\<lparr>sent := sent s @ [get_request mock_stations_url userAgent]\<rparr>)"
  by (simp add: MakeRequest_def mock_env_def mock_Do_def get_request_def ok_response_def
      mock_stations_url_def)

lemma mock_decode_stations:
  "decode_stations (mock_env stations temperature) ''stations'' =
   Inr \<lparr>Features = map (\<lambda>ident. \<lparr>StationIdentifier = ident\<rparr>) stations\<rparr>"
  by (simp add: mock_env_def)

lemma mock_observation_request:
  "MakeRequest (mock_env stations temperature) (observationURL ''KIXD'') userAgent s =
   (Inr ''observation'',
    s\<lparr>sent := sent s @ [get_request (observationURL ''KIXD'') userAgent]\<rparr>)"
  by (simp add: MakeRequest_def mock_env_def mock_Do_def get_request_def ok_response_def
      mock_stations_url_def observationURL_def noaaBaseURL_def)

lemma mock_decode_observation:
  "decode_observation (mock_env stations temperature) ''observation'' =
   Inr \<lparr>Temperature_Value = temperature, Temperature_UnitCode = ''wmoUnit:degC'',
        TextDescription = ''Clear''\<rparr>"
  by (simp add: mock_env_def)

lemma mock_run:
  "fst (GetWeatherFromNOAA (mock_env [''KIXD''] (Some tempC)) (f64_const 389728 10000)
          (f64_const (- 94712) 1000) s) =
   Inr (determineStatus (toFahrenheit tempC), FormatFloat (toFahrenheit tempC) 1 @ temp_suffix)"
  by (simp add: GetWeatherFromNOAA_def mock_getGridpoint fromStationsURL_def
      mock_stations_request mock_decode_stations fromStation_def mock_observation_request
      mock_decode_observation fromObservation_def del: One_nat_def)

lemma fahrenheit_22: "toFahrenheit (f64_const 22 1) = f64_const 716 10"
  by (simp add: toFahrenheit_def f64_eval)

lemma fahrenheit_0: "toFahrenheit (f64_const 0 1) = f64_const 32 1"
  by (simp add: toFahrenheit_def f64_eval)

lemma fahrenheit_100: "toFahrenheit (f64_const 100 1) = f64_const 212 1"
  by (simp add: toFahrenheit_def f64_eval)

lemma format_71_6: "FormatFloat (f64_const 716 10) 1 = ''71.6''"
  by (simp add: f64_eval)

lemma format_32: "FormatFloat (f64_const 32 1) 1 = ''32.0''"
  by (simp add: f64_eval)

lemma status_71_6: "determineStatus (f64_const 716 10) = ''moderate''"
  by (simp add: determineStatus_def f64_eval)

lemma status_32: "determineStatus (f64_const 32 1) = ''cold''"
  by (simp add: determineStatus_def f64_eval)

lemma mock_run_22:
  "fst (GetWeatherFromNOAA (mock_env [''KIXD''] (Some (f64_const 22 1)))
          (f64_const 389728 10000) (f64_const (- 94712) 1000) no_effects) =
   Inr (''moderate'', ''71.6'' @ temp_suffix)"
  by (simp only: mock_run fahrenheit_22 format_71_6 status_71_6)

subsection \<open>The handler before the range checks\<close>

lemma mock_parse_91: "ParseFloat (mock_env stations temperature) ''91'' = Inr (f64_const 91 1)"
  by (simp add: mock_env_def mock_ParseFloat_def)

lemma mock_parse_181: "ParseFloat (mock_env stations temperature) ''181'' = Inr (f64_const 181 1)"
  by (simp add: mock_env_def mock_ParseFloat_def)

lemma mock_parse_lat:
  "ParseFloat (mock_env stations temperature) ''38.9728'' = Inr (f64_const 389728 10000)"
  by (simp add: mock_env_def mock_ParseFloat_def)

lemma mock_parse_lon:
  "ParseFloat (mock_env stations temperature) ''-94.712'' = Inr (f64_const (- 94712) 1000)"
  by (simp add: mock_env_def mock_ParseFloat_def)

lemma mock_parse_NaN: "ParseFloat (mock_env stations temperature) ''NaN'' = Inr f64_nan"
  by (simp add: mock_env_def mock_ParseFloat_def)

lemma mock_parse_abc: "ParseFloat (mock_env stations temperature) ''abc'' = Inl (New ''invalid syntax'')"
  by (simp add: mock_env_def mock_ParseFloat_def)

lemma gt_91_90: "f64_gt (f64_const 91 1) (f64_const 90 1)"
  by (simp add: f64_eval)

lemma gt_181_180: "f64_gt (f64_const 181 1) (f64_const 180 1)"
  by (simp add: f64_eval)

lemma lat_in_range:
  "\<not> (f64_lt (f64_const 389728 10000) (f64_const (- 90) 1) \<or>
      f64_gt (f64_const 389728 10000) (f64_const 90 1))"
  by (simp add: f64_eval)

lemma lon_in_range:
  "\<not> (f64_lt (f64_const (- 94712) 1000) (f64_const (- 180) 1) \<or>
      f64_gt (f64_const (- 94712) 1000) (f64_const 180 1))"
  by (simp add: f64_eval)

lemma IsNaN_f64_nan: "IsNaN f64_nan"
  by (simp add: f64_eval)

lemma Get_mock:
  "Get (Query (mock_request method params)) key =
     (case filter (\<lambda>p. fst p = key) params of [] \<Rightarrow> [] | p # _ \<Rightarrow> snd p)"
  by (simp add: Get_def mock_request_def split: list.splits)

lemma WeatherHandler_parsed:
  assumes "Method r = ''GET''"
    and "Get (Query r) ''latitude'' \<noteq> []"
    and "Get (Query r) ''longitude'' \<noteq> []"
    and "ParseFloat E (Get (Query r) ''latitude'') = Inr latitude"
    and "ParseFloat E (Get (Query r) ''longitude'') = Inr longitude"
  shows "WeatherHandler E r s =
           handleCoordinates E latitude longitude
             (logger_log LevelInfo ''Incoming weather request'' s)"
  using assms by (simp add: WeatherHandler_def)

section \<open>The claims\<close>

text \<open>
  C1. For every temperature \<open>tempF\<close>, \<open>determineStatus\<close> returns \<open>hot\<close> when \<open>tempF > 75\<close>,
  \<open>cold\<close> when \<open>tempF < 50\<close> and \<open>moderate\<close> when \<open>50 \<le> tempF \<le> 75\<close> (Go's comparisons on
  float64); the float64 values of 75.0 and 50.0 are \<open>moderate\<close>, that of 75.1 is \<open>hot\<close>
  and that of 49.9 is \<open>cold\<close>.
\<close>

theorem determineStatus_bands:
  "(f64_gt tempF (f64_const 75 1) \<longrightarrow> determineStatus tempF = ''hot'') \<and>
   (f64_lt tempF (f64_const 50 1) \<longrightarrow> determineStatus tempF = ''cold'') \<and>
   (f64_le (f64_const 50 1) tempF \<and> f64_le tempF (f64_const 75 1) \<longrightarrow>
      determineStatus tempF = ''moderate'') \<and>
   determineStatus (f64_const 75 1) = ''moderate'' \<and>
   determineStatus (f64_const 751 10) = ''hot'' \<and>
   determineStatus (f64_const 50 1) = ''moderate'' \<and>
   determineStatus (f64_const 499 10) = ''cold''"
proof -
  have general:
    "(f64_gt tempF (f64_const 75 1) \<longrightarrow> determineStatus tempF = ''hot'') \<and>
     (f64_lt tempF (f64_const 50 1) \<longrightarrow> determineStatus tempF = ''cold'') \<and>
     (f64_le (f64_const 50 1) tempF \<and> f64_le tempF (f64_const 75 1) \<longrightarrow>
        determineStatus tempF = ''moderate'')"
    using lt_50_not_gt_75 [of tempF]
    by (auto simp: determineStatus_def f64_le_def f64_gt_def)
  have at_75: "determineStatus (f64_const 75 1) = ''moderate''"
    by (simp add: determineStatus_def f64_eval)
  have at_75_1: "determineStatus (f64_const 751 10) = ''hot''"
    by (simp add: determineStatus_def f64_eval)
  have at_50: "determineStatus (f64_const 50 1) = ''moderate''"
    by (simp add: determineStatus_def f64_eval)
  have at_49_9: "determineStatus (f64_const 499 10) = ''cold''"
    by (simp add: determineStatus_def f64_eval)
  from general at_75 at_75_1 at_50 at_49_9 show ?thesis by blast
qed

theorem determineStatus_bands_witness:
  "f64_gt (f64_const 80 1) (f64_const 75 1) \<and> determineStatus (f64_const 80 1) = ''hot'' \<and>
   f64_lt (f64_const 40 1) (f64_const 50 1) \<and> determineStatus (f64_const 40 1) = ''cold'' \<and>
   f64_le (f64_const 50 1) (f64_const 60 1) \<and> f64_le (f64_const 60 1) (f64_const 75 1) \<and>
   determineStatus (f64_const 60 1) = ''moderate''"
proof -
  have hot: "f64_gt (f64_const 80 1) (f64_const 75 1)"
    by (simp add: f64_eval)
  have cold: "f64_lt (f64_const 40 1) (f64_const 50 1)"
    by (simp add: f64_eval)
  have mid: "f64_le (f64_const 50 1) (f64_const 60 1)" "f64_le (f64_const 60 1) (f64_const 75 1)"
    by (simp_all add: f64_eval)
  show ?thesis
    using hot cold mid determineStatus_bands [of "f64_const 80 1"]
      determineStatus_bands [of "f64_const 40 1"] determineStatus_bands [of "f64_const 60 1"]
    by blast
qed

text \<open>
  C2, as the specification states it, does not hold: for the coordinate (38.9728, -94.712),
  grid id EAX, the single station KIXD and 22.0 degrees Celsius, the run does not return
  the status \<open>hot\<close> with the text \<open>71.6\<close>, degree sign, \<open>F\<close>. The status it returns is
  \<open>moderate\<close>, since 71.6 is not above 75.
\<close>

theorem end_to_end_example_counterexample:
  "fst (GetWeatherFromNOAA (mock_env [''KIXD''] (Some (f64_const 22 1)))
          (f64_const 389728 10000) (f64_const (- 94712) 1000) no_effects) \<noteq>
     Inr (''hot'', ''71.6'' @ [CHR 0xC2, CHR 0xB0, CHR ''F'']) \<and>
   map_sum id fst
     (fst (GetWeatherFromNOAA (mock_env [''KIXD''] (Some (f64_const 22 1)))
             (f64_const 389728 10000) (f64_const (- 94712) 1000) no_effects)) =
     Inr ''moderate''"
  by (simp add: mock_run_22)

text \<open>
  C2, amended. With the mocked upstream returning grid id EAX, exactly one station KIXD
  and a latest observation of 22.0 degrees Celsius, the fetch for the coordinate
  (38.9728, -94.712) succeeds with the status \<open>moderate\<close> and a temperature text that
  starts with \<open>71.6\<close> and ends with the letter \<open>F\<close>.
\<close>

theorem end_to_end_example:
  "\<exists>mark. fst (GetWeatherFromNOAA (mock_env [''KIXD''] (Some (f64_const 22 1)))
                 (f64_const 389728 10000) (f64_const (- 94712) 1000) no_effects) =
            Inr (''moderate'', ''71.6'' @ mark @ ''F'')"
proof -
  have "''71.6'' @ temp_suffix = ''71.6'' @ [CHR 0xC3, CHR 0x82, CHR 0xC2, CHR 0xB0] @ ''F''"
    by (simp add: temp_suffix_def)
  with mock_run_22 show ?thesis by metis
qed

text \<open>
  C3. For every Celsius temperature \<open>tempC\<close> that the decoded observation carries, the
  fetch answers from the Fahrenheit value \<open>tempC * 9 / 5 + 32\<close>, computed in float64 from
  left to right: its status is the status of that value and its text is that value with
  one decimal. For \<open>tempC = 0\<close> the value is 32.0, for \<open>tempC = 100\<close> it is 212.0. The
  hypotheses say that the three upstream steps succeed: the grid point, the station
  list with a first station, and the observation of that station.
\<close>

theorem fahrenheit_conversion:
  assumes "getGridpoint E latitude longitude (logger_log LevelInfo ''Fetching weather from NOAA'' s) =
             (Inr (gridId, stationsURL), s1)"
    and "MakeRequest E stationsURL userAgent s1 = (Inr stationsBody, s2)"
    and "decode_stations E stationsBody = Inr stationsResp"
    and "Features stationsResp = feature # others"
    and "MakeRequest E (observationURL (StationIdentifier feature)) userAgent
           (logger_log LevelDebug ''Fetching current observations from NOAA station'' s2) =
             (Inr obsBody, s3)"
    and "decode_observation E obsBody = Inr observationResp"
    and "Temperature_Value observationResp = Some tempC"
  shows "fst (GetWeatherFromNOAA E latitude longitude s) =
           Inr (determineStatus
                  (f64_add (f64_div (f64_mul tempC (f64_const 9 1)) (f64_const 5 1))
                     (f64_const 32 1)),
                FormatFloat
                  (f64_add (f64_div (f64_mul tempC (f64_const 9 1)) (f64_const 5 1))
                     (f64_const 32 1)) 1 @ temp_suffix) \<and>
         f64_add (f64_div (f64_mul (f64_const 0 1) (f64_const 9 1)) (f64_const 5 1))
           (f64_const 32 1) = f64_const 32 1 \<and>
         f64_add (f64_div (f64_mul (f64_const 100 1) (f64_const 9 1)) (f64_const 5 1))
           (f64_const 32 1) = f64_const 212 1"
proof -
  have "fst (GetWeatherFromNOAA E latitude longitude s) =
          Inr (determineStatus (toFahrenheit tempC),
               FormatFloat (toFahrenheit tempC) 1 @ temp_suffix)"
    using assms
    by (simp add: GetWeatherFromNOAA_def fromStationsURL_def fromStation_def
        fromObservation_def del: One_nat_def)
  with fahrenheit_0 fahrenheit_100 show ?thesis
    by (simp only: toFahrenheit_def)
qed

theorem fahrenheit_conversion_witness:
  "fst (GetWeatherFromNOAA (mock_env [''KIXD''] (Some (f64_const 0 1)))
          (f64_const 389728 10000) (f64_const (- 94712) 1000) no_effects) =
   Inr (''cold'', ''32.0'' @ temp_suffix)"
proof -
  let ?E = "mock_env [''KIXD''] (Some (f64_const 0 1))"
  let ?s0 = "logger_log LevelInfo ''Fetching weather from NOAA'' no_effects"
  define s1 where "s1 = snd (getGridpoint ?E (f64_const 389728 10000) (f64_const (- 94712) 1000) ?s0)"
  define s2 where "s2 = s1\<lparr>sent := sent s1 @ [get_request mock_stations_url userAgent]\<rparr>"
  define s3 where "s3 = (logger_log LevelDebug ''Fetching current observations from NOAA station'' s2)
    \<lparr>sent := sent s2 @ [get_request (observationURL ''KIXD'') userAgent]\<rparr>"
  have grid: "getGridpoint ?E (f64_const 389728 10000) (f64_const (- 94712) 1000) ?s0 =
      (Inr (''EAX'', mock_stations_url), s1)"
    by (simp add: s1_def mock_getGridpoint)
  have stations: "MakeRequest ?E mock_stations_url userAgent s1 = (Inr ''stations'', s2)"
    by (simp add: s2_def mock_stations_request)
  have decoded: "decode_stations ?E ''stations'' = Inr \<lparr>Features = [\<lparr>StationIdentifier = ''KIXD''\<rparr>]\<rparr>"
    by (simp add: mock_decode_stations)
  have first: "Features \<lparr>Features = [\<lparr>StationIdentifier = ''KIXD''\<rparr>]\<rparr> =
      \<lparr>StationIdentifier = ''KIXD''\<rparr> # []"
    by simp
  have obs: "MakeRequest ?E (observationURL (StationIdentifier \<lparr>StationIdentifier = ''KIXD''\<rparr>))
      userAgent (logger_log LevelDebug ''Fetching current observations from NOAA station'' s2) =
      (Inr ''observation'', s3)"
    by (simp add: s3_def mock_observation_request)
  have obs_decoded: "decode_observation ?E ''observation'' =
      Inr \<lparr>Temperature_Value = Some (f64_const 0 1), Temperature_UnitCode = ''wmoUnit:degC'',
           TextDescription = ''Clear''\<rparr>"
    by (rule mock_decode_observation)
  have val: "Temperature_Value \<lparr>Temperature_Value = Some (f64_const 0 1),
      Temperature_UnitCode = ''wmoUnit:degC'', TextDescription = ''Clear''\<rparr> = Some (f64_const 0 1)"
    by simp
  from fahrenheit_conversion [OF grid stations decoded first obs obs_decoded val]
  show ?thesis
    by (simp only: format_32 status_32)
qed

text \<open>
  C4. Whenever the fetch succeeds, the status it returns is one of \<open>hot\<close>, \<open>cold\<close> and
  \<open>moderate\<close>; in particular it is not empty.
\<close>

theorem status_on_success:
  "GetWeatherFromNOAA E latitude longitude s = (Inr (status, temp), s') \<Longrightarrow>
   status = ''hot'' \<or> status = ''cold'' \<or> status = ''moderate''"
  by (auto simp: GetWeatherFromNOAA_def split: prod.splits sum.splits
      dest: fromStationsURL_status)

theorem status_on_success_witness:
  "GetWeatherFromNOAA (mock_env [''KIXD''] (Some (f64_const 22 1))) (f64_const 389728 10000)
     (f64_const (- 94712) 1000) no_effects =
   (Inr (''moderate'', ''71.6'' @ temp_suffix),
    snd (GetWeatherFromNOAA (mock_env [''KIXD''] (Some (f64_const 22 1)))
           (f64_const 389728 10000) (f64_const (- 94712) 1000) no_effects)) \<and>
   (''moderate'' = ''hot'' \<or> ''moderate'' = ''cold'' \<or> ''moderate'' = ''moderate'')"
proof -
  let ?run = "GetWeatherFromNOAA (mock_env [''KIXD''] (Some (f64_const 22 1)))
     (f64_const 389728 10000) (f64_const (- 94712) 1000) no_effects"
  have run: "?run = (Inr (''moderate'', ''71.6'' @ temp_suffix), snd ?run)"
    using mock_run_22 by (simp add: prod_eq_iff)
  show ?thesis
    by (rule conjI [OF run status_on_success [OF run]])
qed

text \<open>
  C5. The claim asks for the value with one decimal, then the degree sign U+00B0 (in
  UTF-8 the two bytes \<^verbatim>\<open>C2 B0\<close>) and the letter \<open>F\<close>. At 22.0 degrees Celsius the fetch
  returns \<open>71.6\<close> followed by the five bytes \<^verbatim>\<open>C3 82 C2 B0 46\<close>, which is a different text.
\<close>

theorem temperature_text_bytes:
  "fst (GetWeatherFromNOAA (mock_env [''KIXD''] (Some (f64_const 22 1)))
          (f64_const 389728 10000) (f64_const (- 94712) 1000) no_effects) =
     Inr (''moderate'', ''71.6'' @ [CHR 0xC3, CHR 0x82, CHR 0xC2, CHR 0xB0, CHR ''F'']) \<and>
   ''71.6'' @ [CHR 0xC3, CHR 0x82, CHR 0xC2, CHR 0xB0, CHR ''F''] \<noteq>
   ''71.6'' @ [CHR 0xC2, CHR 0xB0, CHR ''F'']"
  using mock_run_22 by (simp add: temp_suffix_def)

text \<open>
  C6. Whenever the station list decoded in the second step is empty, the fetch fails with
  the error \<open>no observation stations available\<close>, and the requests of the whole run are
  the one for the grid point and the one for the station list: no third request is sent.
\<close>

theorem no_stations:
  assumes "getGridpoint E latitude longitude (logger_log LevelInfo ''Fetching weather from NOAA'' s) =
             (Inr (gridId, stationsURL), s1)"
    and "MakeRequest E stationsURL userAgent s1 = (Inr stationsBody, s2)"
    and "decode_stations E stationsBody = Inr stationsResp"
    and "Features stationsResp = []"
  shows "fst (GetWeatherFromNOAA E latitude longitude s) =
           Inl (New ''no observation stations available'') \<and>
         sent (snd (GetWeatherFromNOAA E latitude longitude s)) =
           sent s @ [get_request (pointsURL latitude longitude) userAgent,
                     get_request stationsURL userAgent]"
proof -
  have run: "GetWeatherFromNOAA E latitude longitude s =
      (Inl (New ''no observation stations available''),
       logger_log LevelWarn ''No observation stations available'' s2)"
    using assms by (simp add: GetWeatherFromNOAA_def fromStationsURL_def)
  have "sent s1 = sent s @ [get_request (pointsURL latitude longitude) userAgent]"
    using getGridpoint_Inr [OF assms(1)] by simp
  moreover have "sent s2 = sent s1 @ [get_request stationsURL userAgent]"
    using MakeRequest_Inr [OF assms(2)] by simp
  ultimately show ?thesis
    using run by simp
qed

theorem no_stations_witness:
  "fst (GetWeatherFromNOAA (mock_env [] (Some (f64_const 22 1))) (f64_const 389728 10000)
          (f64_const (- 94712) 1000) no_effects) =
     Inl (New ''no observation stations available'') \<and>
   sent (snd (GetWeatherFromNOAA (mock_env [] (Some (f64_const 22 1)))
                (f64_const 389728 10000) (f64_const (- 94712) 1000) no_effects)) =
     [get_request ''https://api.weather.gov/points/38.9728,-94.7120'' userAgent,
      get_request ''https://api.weather.gov/gridpoints/EAX/38,73/stations'' userAgent]"
proof -
  let ?E = "mock_env [] (Some (f64_const 22 1))"
  let ?s0 = "logger_log LevelInfo ''Fetching weather from NOAA'' no_effects"
  define s1 where "s1 = snd (getGridpoint ?E (f64_const 389728 10000) (f64_const (- 94712) 1000) ?s0)"
  define s2 where "s2 = s1\<lparr>sent := sent s1 @ [get_request mock_stations_url userAgent]\<rparr>"
  have grid: "getGridpoint ?E (f64_const 389728 10000) (f64_const (- 94712) 1000) ?s0 =
      (Inr (''EAX'', mock_stations_url), s1)"
    by (simp add: s1_def mock_getGridpoint)
  have stations: "MakeRequest ?E mock_stations_url userAgent s1 = (Inr ''stations'', s2)"
    by (simp add: s2_def mock_stations_request)
  have decoded: "decode_stations ?E ''stations'' = Inr \<lparr>Features = []\<rparr>"
    by (simp add: mock_decode_stations)
  have empty: "Features \<lparr>Features = []\<rparr> = []"
    by simp
  from no_stations [OF grid stations decoded empty] show ?thesis
    by (simp add: mock_pointsURL mock_stations_url_def no_effects_def)
qed

text \<open>
  C7. Whenever the decoded observation carries no temperature value (a JSON null), the
  fetch fails with the error \<open>temperature data not available from NOAA observations\<close>; it
  does not answer what a temperature of zero would give.
\<close>

theorem null_temperature:
  assumes "getGridpoint E latitude longitude (logger_log LevelInfo ''Fetching weather from NOAA'' s) =
             (Inr (gridId, stationsURL), s1)"
    and "MakeRequest E stationsURL userAgent s1 = (Inr stationsBody, s2)"
    and "decode_stations E stationsBody = Inr stationsResp"
    and "Features stationsResp = feature # others"
    and "MakeRequest E (observationURL (StationIdentifier feature)) userAgent
           (logger_log LevelDebug ''Fetching current observations from NOAA station'' s2) =
             (Inr obsBody, s3)"
    and "decode_observation E obsBody = Inr observationResp"
    and "Temperature_Value observationResp = None"
  shows "GetWeatherFromNOAA E latitude longitude s =
           (Inl (New ''temperature data not available from NOAA observations''),
            logger_log LevelWarn ''Temperature data not available from NOAA observations'' s3) \<and>
         fst (GetWeatherFromNOAA E latitude longitude s) \<noteq>
           Inr (determineStatus (toFahrenheit (f64_const 0 1)),
                FormatFloat (toFahrenheit (f64_const 0 1)) 1 @ temp_suffix)"
  using assms
  by (simp add: GetWeatherFromNOAA_def fromStationsURL_def fromStation_def fromObservation_def)

theorem null_temperature_witness:
  "fst (GetWeatherFromNOAA (mock_env [''KIXD''] None) (f64_const 389728 10000)
          (f64_const (- 94712) 1000) no_effects) =
     Inl (New ''temperature data not available from NOAA observations'')"
proof -
  let ?E = "mock_env [''KIXD''] None"
  let ?s0 = "logger_log LevelInfo ''Fetching weather from NOAA'' no_effects"
  define s1 where "s1 = snd (getGridpoint ?E (f64_const 389728 10000) (f64_const (- 94712) 1000) ?s0)"
  define s2 where "s2 = s1\<lparr>sent := sent s1 @ [get_request mock_stations_url userAgent]\<rparr>"
  define s3 where "s3 = (logger_log LevelDebug ''Fetching current observations from NOAA station'' s2)
    \<lparr>sent := sent s2 @ [get_request (observationURL ''KIXD'') userAgent]\<rparr>"
  have grid: "getGridpoint ?E (f64_const 389728 10000) (f64_const (- 94712) 1000) ?s0 =
      (Inr (''EAX'', mock_stations_url), s1)"
    by (simp add: s1_def mock_getGridpoint)
  have stations: "MakeRequest ?E mock_stations_url userAgent s1 = (Inr ''stations'', s2)"
    by (simp add: s2_def mock_stations_request)
  have decoded: "decode_stations ?E ''stations'' = Inr \<lparr>Features = [\<lparr>StationIdentifier = ''KIXD''\<rparr>]\<rparr>"
    by (simp add: mock_decode_stations)
  have first: "Features \<lparr>Features = [\<lparr>StationIdentifier = ''KIXD''\<rparr>]\<rparr> =
      \<lparr>StationIdentifier = ''KIXD''\<rparr> # []"
    by simp
  have obs: "MakeRequest ?E (observationURL (StationIdentifier \<lparr>StationIdentifier = ''KIXD''\<rparr>))
      userAgent (logger_log LevelDebug ''Fetching current observations from NOAA station'' s2) =
      (Inr ''observation'', s3)"
    by (simp add: s3_def mock_observation_request)
  have obs_decoded: "decode_observation ?E ''observation'' =
      Inr \<lparr>Temperature_Value = None, Temperature_UnitCode = ''wmoUnit:degC'',
           TextDescription = ''Clear''\<rparr>"
    by (rule mock_decode_observation)
  have val: "Temperature_Value \<lparr>Temperature_Value = None,
      Temperature_UnitCode = ''wmoUnit:degC'', TextDescription = ''Clear''\<rparr> = None"
    by simp
  from null_temperature [OF grid stations decoded first obs obs_decoded val]
  show ?thesis by simp
qed

text \<open>
  C8, as the specification states it, does not hold for every GET request whose latitude
  parses outside the range: with the latitude 91 and a longitude that does not parse the
  reply is \<open>invalid longitude parameter\<close>, and with the latitude 91 and no longitude it is
  \<open>latitude and longitude query parameters are required\<close>.
\<close>

theorem range_validation_counterexample:
  "ParseFloat (mock_env [] None) ''91'' = Inr (f64_const 91 1) \<and>
   f64_gt (f64_const 91 1) (f64_const 90 1) \<and>
   fst (WeatherHandler (mock_env [] None)
          (mock_request ''GET'' [(''latitude'', ''91''), (''longitude'', ''abc'')]) no_effects) =
     HttpError ''invalid longitude parameter'' 400 \<and>
   fst (WeatherHandler (mock_env [] None)
          (mock_request ''GET'' [(''latitude'', ''91'')]) no_effects) =
     HttpError ''latitude and longitude query parameters are required'' 400"
proof -
  let ?E = "mock_env [] None"
  let ?r1 = "mock_request ''GET'' [(''latitude'', ''91''), (''longitude'', ''abc'')]"
  let ?r2 = "mock_request ''GET'' [(''latitude'', ''91'')]"
  have get1: "Method ?r1 = ''GET''" "Get (Query ?r1) ''latitude'' = ''91''"
    "Get (Query ?r1) ''longitude'' = ''abc''"
    by (simp_all add: Get_mock) (simp add: mock_request_def)
  have get2: "Method ?r2 = ''GET''" "Get (Query ?r2) ''latitude'' = ''91''"
    "Get (Query ?r2) ''longitude'' = []"
    by (simp_all add: Get_mock) (simp add: mock_request_def)
  have first: "fst (WeatherHandler ?E ?r1 no_effects) =
      HttpError ''invalid longitude parameter'' 400"
    by (simp add: WeatherHandler_def get1 mock_parse_91 mock_parse_abc StatusBadRequest_def)
  have second: "fst (WeatherHandler ?E ?r2 no_effects) =
      HttpError ''latitude and longitude query parameters are required'' 400"
    by (simp add: WeatherHandler_def get2 StatusBadRequest_def)
  from first second mock_parse_91 [of "[]" None] gt_91_90 show ?thesis
    by simp
qed

text \<open>
  C8, amended. For every GET request whose two parameters are both present and both
  parse: when the latitude is below -90 or above 90 the handler replies 400 with
  \<open>latitude must be between -90 and 90\<close>, whatever the longitude is; when the latitude is
  neither and the longitude is below -180 or above 180 it replies 400 with
  \<open>longitude must be between -180 and 180\<close>; in both cases no upstream request is sent.
\<close>

theorem range_validation:
  assumes "Method r = ''GET''"
    and "Get (Query r) ''latitude'' \<noteq> []"
    and "Get (Query r) ''longitude'' \<noteq> []"
    and "ParseFloat E (Get (Query r) ''latitude'') = Inr latitude"
    and "ParseFloat E (Get (Query r) ''longitude'') = Inr longitude"
  shows "(f64_lt latitude (f64_const (- 90) 1) \<or> f64_gt latitude (f64_const 90 1) \<longrightarrow>
            fst (WeatherHandler E r s) = HttpError ''latitude must be between -90 and 90'' 400 \<and>
            sent (snd (WeatherHandler E r s)) = sent s) \<and>
         (\<not> (f64_lt latitude (f64_const (- 90) 1) \<or> f64_gt latitude (f64_const 90 1)) \<and>
          (f64_lt longitude (f64_const (- 180) 1) \<or> f64_gt longitude (f64_const 180 1)) \<longrightarrow>
            fst (WeatherHandler E r s) =
              HttpError ''longitude must be between -180 and 180'' 400 \<and>
            sent (snd (WeatherHandler E r s)) = sent s)"
  unfolding WeatherHandler_parsed [OF assms]
  by (simp add: handleCoordinates_def StatusBadRequest_def)

theorem range_validation_witness:
  "fst (WeatherHandler (mock_env [''KIXD''] (Some (f64_const 22 1)))
          (mock_request ''GET'' [(''latitude'', ''91''), (''longitude'', ''181'')]) no_effects) =
     HttpError ''latitude must be between -90 and 90'' 400 \<and>
   sent (snd (WeatherHandler (mock_env [''KIXD''] (Some (f64_const 22 1)))
                (mock_request ''GET'' [(''latitude'', ''91''), (''longitude'', ''181'')])
                no_effects)) = [] \<and>
   fst (WeatherHandler (mock_env [''KIXD''] (Some (f64_const 22 1)))
          (mock_request ''GET'' [(''latitude'', ''38.9728''), (''longitude'', ''181'')])
          no_effects) =
     HttpError ''longitude must be between -180 and 180'' 400 \<and>
   sent (snd (WeatherHandler (mock_env [''KIXD''] (Some (f64_const 22 1)))
                (mock_request ''GET'' [(''latitude'', ''38.9728''), (''longitude'', ''181'')])
                no_effects)) = []"
proof -
  let ?E = "mock_env [''KIXD''] (Some (f64_const 22 1))"
  let ?r1 = "mock_request ''GET'' [(''latitude'', ''91''), (''longitude'', ''181'')]"
  let ?r2 = "mock_request ''GET'' [(''latitude'', ''38.9728''), (''longitude'', ''181'')]"
  have get1: "Method ?r1 = ''GET''" "Get (Query ?r1) ''latitude'' = ''91''"
    "Get (Query ?r1) ''longitude'' = ''181''"
    by (simp_all add: Get_mock) (simp add: mock_request_def)
  have get2: "Method ?r2 = ''GET''" "Get (Query ?r2) ''latitude'' = ''38.9728''"
    "Get (Query ?r2) ''longitude'' = ''181''"
    by (simp_all add: Get_mock) (simp add: mock_request_def)
  have first: "fst (WeatherHandler ?E ?r1 no_effects) =
        HttpError ''latitude must be between -90 and 90'' 400 \<and>
      sent (snd (WeatherHandler ?E ?r1 no_effects)) = sent no_effects"
    using range_validation [of ?r1 ?E "f64_const 91 1" "f64_const 181 1" no_effects] gt_91_90
    by (simp add: get1 mock_parse_91 mock_parse_181)
  have second: "fst (WeatherHandler ?E ?r2 no_effects) =
        HttpError ''longitude must be between -180 and 180'' 400 \<and>
      sent (snd (WeatherHandler ?E ?r2 no_effects)) = sent no_effects"
    using range_validation [of ?r2 ?E "f64_const 389728 10000" "f64_const 181 1" no_effects]
      gt_181_180 lat_in_range
    by (simp add: get2 mock_parse_lat mock_parse_181)
  from first second show ?thesis
    by (simp add: no_effects_def)
qed

text \<open>
  C9. For every request whose method is not GET, whatever its query parameters are, the
  handler replies 405 with \<open>Method not allowed\<close> and sends no upstream request.
\<close>

theorem method_not_allowed:
  "Method r \<noteq> ''GET'' \<Longrightarrow>
   fst (WeatherHandler E r s) = HttpError ''Method not allowed'' 405 \<and>
   sent (snd (WeatherHandler E r s)) = sent s"
  by (simp add: WeatherHandler_def StatusMethodNotAllowed_def)

theorem method_not_allowed_witness:
  "fst (WeatherHandler (mock_env [''KIXD''] (Some (f64_const 22 1)))
          (mock_request ''POST'' [(''latitude'', ''38.9728''), (''longitude'', ''-94.712'')])
          no_effects) = HttpError ''Method not allowed'' 405 \<and>
   sent (snd (WeatherHandler (mock_env [''KIXD''] (Some (f64_const 22 1)))
                (mock_request ''POST'' [(''latitude'', ''38.9728''), (''longitude'', ''-94.712'')])
                no_effects)) = []"
proof -
  have post: "Method (mock_request ''POST'' [(''latitude'', ''38.9728''), (''longitude'', ''-94.712'')])
      \<noteq> ''GET''"
    by (simp add: mock_request_def)
  from method_not_allowed [OF post] show ?thesis
    by (simp add: no_effects_def)
qed

text \<open>
  C10. When a parameter parses to a NaN, both of its range comparisons are false. So a
  GET request whose latitude parses to a NaN, and whose longitude is a NaN or in range,
  passes the range checks: the handler goes on to fetch the weather for the NaN
  coordinate, with a grid point URL that reads \<open>NaN\<close> where the latitude belongs, and that
  request is sent when a request can be built for the URL. The same holds for a
  longitude that parses to a NaN.
\<close>

theorem nan_passes_range_checks:
  assumes "Method r = ''GET''"
    and "Get (Query r) ''latitude'' \<noteq> []"
    and "Get (Query r) ''longitude'' \<noteq> []"
    and "ParseFloat E (Get (Query r) ''latitude'') = Inr latitude"
    and "ParseFloat E (Get (Query r) ''longitude'') = Inr longitude"
  shows "(IsNaN latitude \<longrightarrow>
            \<not> f64_lt latitude (f64_const (- 90) 1) \<and> \<not> f64_gt latitude (f64_const 90 1)) \<and>
         (IsNaN longitude \<longrightarrow>
            \<not> f64_lt longitude (f64_const (- 180) 1) \<and> \<not> f64_gt longitude (f64_const 180 1)) \<and>
         (IsNaN latitude \<and>
          \<not> (f64_lt longitude (f64_const (- 180) 1) \<or> f64_gt longitude (f64_const 180 1)) \<longrightarrow>
            WeatherHandler E r s =
              fetchAndRespond E latitude longitude
                (logger_log LevelInfo ''Incoming weather request'' s) \<and>
            pointsURL latitude longitude =
              noaaBaseURL @ ''/points/NaN,'' @ FormatFloat longitude 4) \<and>
         (IsNaN longitude \<and>
          \<not> (f64_lt latitude (f64_const (- 90) 1) \<or> f64_gt latitude (f64_const 90 1)) \<longrightarrow>
            WeatherHandler E r s =
              fetchAndRespond E latitude longitude
                (logger_log LevelInfo ''Incoming weather request'' s) \<and>
            pointsURL latitude longitude =
              noaaBaseURL @ ''/points/'' @ FormatFloat latitude 4 @ '',NaN'') \<and>
         ((IsNaN latitude \<or> IsNaN longitude) \<and>
          \<not> (f64_lt latitude (f64_const (- 90) 1) \<or> f64_gt latitude (f64_const 90 1)) \<and>
          \<not> (f64_lt longitude (f64_const (- 180) 1) \<or> f64_gt longitude (f64_const 180 1)) \<and>
          NewRequest E ''GET'' (pointsURL latitude longitude) = None \<longrightarrow>
            (\<exists>rest. sent (snd (WeatherHandler E r s)) =
               sent s @ get_request (pointsURL latitude longitude) userAgent # rest))"
proof -
  have nan_lat: "IsNaN latitude \<Longrightarrow>
      \<not> f64_lt latitude (f64_const (- 90) 1) \<and> \<not> f64_gt latitude (f64_const 90 1)"
    using f64_lt_NaN [of latitude "f64_const (- 90) 1"] f64_gt_NaN [of latitude "f64_const 90 1"]
    by simp
  have nan_lon: "IsNaN longitude \<Longrightarrow>
      \<not> f64_lt longitude (f64_const (- 180) 1) \<and> \<not> f64_gt longitude (f64_const 180 1)"
    using f64_lt_NaN [of longitude "f64_const (- 180) 1"]
      f64_gt_NaN [of longitude "f64_const 180 1"]
    by simp
  have accepted: "WeatherHandler E r s =
      fetchAndRespond E latitude longitude (logger_log LevelInfo ''Incoming weather request'' s)"
    if "\<not> (f64_lt latitude (f64_const (- 90) 1) \<or> f64_gt latitude (f64_const 90 1))"
      and "\<not> (f64_lt longitude (f64_const (- 180) 1) \<or> f64_gt longitude (f64_const 180 1))"
    using that unfolding WeatherHandler_parsed [OF assms]
    by (simp add: handleCoordinates_def)
  have url_lat: "IsNaN latitude \<Longrightarrow>
      pointsURL latitude longitude = noaaBaseURL @ ''/points/NaN,'' @ FormatFloat longitude 4"
    by (simp add: pointsURL_def FormatFloat_NaN)
  have url_lon: "IsNaN longitude \<Longrightarrow>
      pointsURL latitude longitude = noaaBaseURL @ ''/points/'' @ FormatFloat latitude 4 @ '',NaN''"
    by (simp add: pointsURL_def FormatFloat_NaN)
  have request: "\<exists>rest. sent (snd (WeatherHandler E r s)) =
      sent s @ get_request (pointsURL latitude longitude) userAgent # rest"
    if "\<not> (f64_lt latitude (f64_const (- 90) 1) \<or> f64_gt latitude (f64_const 90 1))"
      and "\<not> (f64_lt longitude (f64_const (- 180) 1) \<or> f64_gt longitude (f64_const 180 1))"
      and "NewRequest E ''GET'' (pointsURL latitude longitude) = None"
    using GetWeatherFromNOAA_first_request [OF that(3),
        of "logger_log LevelInfo ''Incoming weather request'' s"]
    by (simp add: accepted [OF that(1,2)] fetchAndRespond_sent)
  from nan_lat nan_lon accepted url_lat url_lon request show ?thesis
    by blast
qed

theorem nan_passes_range_checks_witness:
  "IsNaN f64_nan \<and>
   ParseFloat (mock_env [''KIXD''] (Some (f64_const 22 1))) ''NaN'' = Inr f64_nan \<and>
   WeatherHandler (mock_env [''KIXD''] (Some (f64_const 22 1)))
     (mock_request ''GET'' [(''latitude'', ''NaN''), (''longitude'', ''-94.712'')]) no_effects =
     fetchAndRespond (mock_env [''KIXD''] (Some (f64_const 22 1))) f64_nan
       (f64_const (- 94712) 1000)
       (logger_log LevelInfo ''Incoming weather request'' no_effects) \<and>
   pointsURL f64_nan (f64_const (- 94712) 1000) = ''https://api.weather.gov/points/NaN,-94.7120'' \<and>
   (\<exists>rest. sent (snd (WeatherHandler (mock_env [''KIXD''] (Some (f64_const 22 1)))
                          (mock_request ''GET'' [(''latitude'', ''NaN''), (''longitude'', ''-94.712'')])
                          no_effects)) =
            get_request ''https://api.weather.gov/points/NaN,-94.7120'' userAgent # rest) \<and>
   WeatherHandler (mock_env [''KIXD''] (Some (f64_const 22 1)))
     (mock_request ''GET'' [(''latitude'', ''38.9728''), (''longitude'', ''NaN'')]) no_effects =
     fetchAndRespond (mock_env [''KIXD''] (Some (f64_const 22 1))) (f64_const 389728 10000)
       f64_nan (logger_log LevelInfo ''Incoming weather request'' no_effects) \<and>
   pointsURL (f64_const 389728 10000) f64_nan = ''https://api.weather.gov/points/38.9728,NaN''"
proof -
  let ?E = "mock_env [''KIXD''] (Some (f64_const 22 1))"
  let ?r1 = "mock_request ''GET'' [(''latitude'', ''NaN''), (''longitude'', ''-94.712'')]"
  let ?r2 = "mock_request ''GET'' [(''latitude'', ''38.9728''), (''longitude'', ''NaN'')]"
  let ?lat = "f64_const 389728 10000"
  let ?lon = "f64_const (- 94712) 1000"
  have get1: "Method ?r1 = ''GET''" "Get (Query ?r1) ''latitude'' = ''NaN''"
    "Get (Query ?r1) ''longitude'' = ''-94.712''"
    by (simp_all add: Get_mock) (simp add: mock_request_def)
  have get2: "Method ?r2 = ''GET''" "Get (Query ?r2) ''latitude'' = ''38.9728''"
    "Get (Query ?r2) ''longitude'' = ''NaN''"
    by (simp_all add: Get_mock) (simp add: mock_request_def)
  have given1: "Get (Query ?r1) ''latitude'' \<noteq> []" "Get (Query ?r1) ''longitude'' \<noteq> []"
    "ParseFloat ?E (Get (Query ?r1) ''latitude'') = Inr f64_nan"
    "ParseFloat ?E (Get (Query ?r1) ''longitude'') = Inr ?lon"
    by (simp_all add: get1 mock_parse_NaN mock_parse_lon)
  have given2: "Get (Query ?r2) ''latitude'' \<noteq> []" "Get (Query ?r2) ''longitude'' \<noteq> []"
    "ParseFloat ?E (Get (Query ?r2) ''latitude'') = Inr ?lat"
    "ParseFloat ?E (Get (Query ?r2) ''longitude'') = Inr f64_nan"
    by (simp_all add: get2 mock_parse_NaN mock_parse_lat)
  have url1: "noaaBaseURL @ ''/points/NaN,'' @ FormatFloat ?lon 4 =
      ''https://api.weather.gov/points/NaN,-94.7120''"
    by (simp add: noaaBaseURL_def f64_eval)
  have url2: "noaaBaseURL @ ''/points/'' @ FormatFloat ?lat 4 @ '',NaN'' =
      ''https://api.weather.gov/points/38.9728,NaN''"
    by (simp add: noaaBaseURL_def f64_eval)
  have built: "NewRequest ?E ''GET'' (pointsURL f64_nan ?lon) = None"
    by (simp add: mock_env_def)
  note at_lat = nan_passes_range_checks [OF get1(1) given1, of no_effects]
  note at_lon = nan_passes_range_checks [OF get2(1) given2, of no_effects]
  have first: "WeatherHandler ?E ?r1 no_effects =
        fetchAndRespond ?E f64_nan ?lon
          (logger_log LevelInfo ''Incoming weather request'' no_effects)"
    and url_lat: "pointsURL f64_nan ?lon = noaaBaseURL @ ''/points/NaN,'' @ FormatFloat ?lon 4"
    and request: "\<exists>rest. sent (snd (WeatherHandler ?E ?r1 no_effects)) =
        sent no_effects @ get_request (pointsURL f64_nan ?lon) userAgent # rest"
    using at_lat IsNaN_f64_nan lon_in_range built by blast+
  have second: "WeatherHandler ?E ?r2 no_effects =
        fetchAndRespond ?E ?lat f64_nan
          (logger_log LevelInfo ''Incoming weather request'' no_effects)"
    and url_lon: "pointsURL ?lat f64_nan = noaaBaseURL @ ''/points/'' @ FormatFloat ?lat 4 @ '',NaN''"
    using at_lon IsNaN_f64_nan lat_in_range by blast+
  have points1: "pointsURL f64_nan ?lon = ''https://api.weather.gov/points/NaN,-94.7120''"
    by (simp only: url_lat url1)
  have points2: "pointsURL ?lat f64_nan = ''https://api.weather.gov/points/38.9728,NaN''"
    by (simp only: url_lon url2)
  have sent_first: "\<exists>rest. sent (snd (WeatherHandler ?E ?r1 no_effects)) =
      get_request ''https://api.weather.gov/points/NaN,-94.7120'' userAgent # rest"
    using request by (simp add: points1 no_effects_def)
  from first second sent_first points1 points2 IsNaN_f64_nan
    mock_parse_NaN [of "[''KIXD'']" "Some (f64_const 22 1)"]
  show ?thesis
    by simp
qed

end
